theory Spec2Isabelle
  imports Main
begin

section \<open>The welcome-message endpoint of django-react\<close>

text \<open>
  The repository is two Python files: \<^verbatim>\<open>backend/api/views.py\<close> defines the view
  \<^verbatim>\<open>welcome_message\<close>, decorated with \<^verbatim>\<open>@api_view(["GET"])\<close>, and
  \<^verbatim>\<open>backend/api/urls.py\<close> registers it under the route \<^verbatim>\<open>welcome-message/\<close>.
  Both files are embedded below as they are written. What they call
  (\<^verbatim>\<open>api_view\<close>, \<^verbatim>\<open>Response\<close>, \<^verbatim>\<open>path\<close>, and the dispatch of a request
  to a view) belongs to Django and Django REST framework; those parts are modelled as the
  libraries behave in their default configuration: no authentication, permission or
  throttle classes, the JSON renderer, and no middleware in front of the URL resolver.
  The URLconf is taken as mounted at the site root, so the request path
  \<^verbatim>\<open>/welcome-message/\<close> reaches the route \<^verbatim>\<open>welcome-message/\<close>.
\<close>

subsection \<open>Data\<close>

text \<open>
  The values a view hands to \<^verbatim>\<open>Response\<close>: Python \<^verbatim>\<open>None\<close>, booleans, strings,
  lists and dictionaries. A dictionary is an association list in insertion order.
  Numbers do not occur in this program and are left out.
\<close>

datatype json =
    JNull
  | JBool bool
  | JString string
  | JArray "json list"
  | JObject "(string \<times> json) list"

text \<open>
  The parts of an incoming request. \<open>request_method\<close> is \<^verbatim>\<open>request.method\<close> as Django
  stores it, \<open>path_info\<close> the path with its leading slash.
\<close>

record request =
  request_method :: string
  path_info :: string
  query_params :: "(string \<times> string) list"
  headers :: "(string \<times> string) list"
  body :: string

text \<open>
  A \<^verbatim>\<open>rest_framework.response.Response\<close>: the unrendered \<open>data\<close>, the status code,
  the content type given to the constructor, and, once rendered, the
  \<^verbatim>\<open>Content-Type\<close> header and the bytes of the body.
\<close>

record response =
  data :: "json option"
  status_code :: nat
  content_type :: "string option"
  content_type_header :: "string option"
  content :: string

text \<open>
  \<^verbatim>\<open>Response(data=None, status=None, ..., content_type=None)\<close>: without a status the
  response keeps the class default 200.
\<close>

definition Response :: "json option \<Rightarrow> nat option \<Rightarrow> response" where
  "Response d st =
     \<lparr>data = d,
      status_code = (case st of None \<Rightarrow> 200 | Some c \<Rightarrow> c),
      content_type = None,
      content_type_header = None,
      content = []\<rparr>"

text \<open>
  What a view can raise: the framework's \<^verbatim>\<open>MethodNotAllowed(method)\<close>, or any other
  Python exception (named by its class).
\<close>

datatype exn = MethodNotAllowed string | PyException string

text \<open>
  A view function takes the request and runs in the program state \<open>'s\<close> (module
  globals, database, log records, calls made to other services): it returns a response
  or raises, together with the state it leaves behind.
\<close>

type_synonym 's view_func = "request \<Rightarrow> 's \<Rightarrow> (exn + response) \<times> 's"

subsection \<open>views.py\<close>

text \<open>
  \<^verbatim>\<open>
  def welcome_message(request):
      """Return a welcome message for the frontend to display."""
      return Response({"message": "Hello World!"})
  \<close>
  The body is one \<^verbatim>\<open>return\<close>: it reads nothing of the request or the state and
  assigns nothing.
\<close>

definition welcome_message :: "'s view_func" where
  "welcome_message request s =
     (Inr (Response (Some (JObject [(''message'', JString ''Hello World!'')])) None), s)"

subsection \<open>The decorator api_view\<close>

text \<open>\<^verbatim>\<open>str.lower()\<close> on ASCII letters; every other byte is kept.\<close>

definition lower_char :: "char \<Rightarrow> char" where
  "lower_char c =
     (let n = (of_char c :: nat) in if 65 \<le> n \<and> n \<le> 90 then char_of (n + 32) else c)"

definition str_lower :: "string \<Rightarrow> string" where
  "str_lower s = map lower_char s"

text \<open>
  \<^verbatim>\<open>api_view(http_method_names)(func)\<close> builds a subclass of \<^verbatim>\<open>APIView\<close>:
  \<^verbatim>\<open>
  allowed_methods = set(http_method_names) | {'options'}
  WrappedAPIView.http_method_names = [method.lower() for method in allowed_methods]
  def handler(self, *args, **kwargs):
      return func(*args, **kwargs)
  for method in http_method_names:
      setattr(WrappedAPIView, method.lower(), handler)
  \<close>
  \<open>func_methods\<close> are the attribute names under which \<open>handler\<close> was installed.
  \<open>metadata\<close> stands for the self-description of the view that the framework's metadata
  class computes for an \<^verbatim>\<open>OPTIONS\<close> request (name, description, renderers and
  parsers of the view); no property below depends on its value.
\<close>

record 's wrapped_api_view =
  http_method_names :: "string list"
  func_methods :: "string list"
  func :: "'s view_func"
  metadata :: json

definition api_view :: "json \<Rightarrow> string list \<Rightarrow> 's view_func \<Rightarrow> 's wrapped_api_view" where
  "api_view md names f =
     \<lparr>http_method_names = map str_lower (List.union names [''options'']),
      func_methods = map str_lower names,
      func = f,
      metadata = md\<rparr>"

text \<open>
  The three methods a request can be handed to: the decorated function, the inherited
  \<^verbatim>\<open>APIView.options\<close>, and \<^verbatim>\<open>http_method_not_allowed\<close>.
\<close>

datatype handler = ViewFunc | Options | HttpMethodNotAllowed

text \<open>
  \<^verbatim>\<open>
  if request.method.lower() in self.http_method_names:
      handler = getattr(self, request.method.lower(), self.http_method_not_allowed)
  else:
      handler = self.http_method_not_allowed
  \<close>
  An attribute set by the decorator shadows the inherited \<^verbatim>\<open>options\<close>.
\<close>

definition get_handler :: "'s wrapped_api_view \<Rightarrow> request \<Rightarrow> handler" where
  "get_handler v request =
     (let m = str_lower (request_method request) in
      if m \<in> set (http_method_names v) then
        (if m \<in> set (func_methods v) then ViewFunc
         else if m = ''options'' then Options
         else HttpMethodNotAllowed)
      else HttpMethodNotAllowed)"

text \<open>\<^verbatim>\<open>APIView.options\<close>: the view's metadata with status 200.\<close>

definition options :: "'s wrapped_api_view \<Rightarrow> request \<Rightarrow> exn + response" where
  "options v request = Inr (Response (Some (metadata v)) (Some 200))"

text \<open>\<^verbatim>\<open>APIView.http_method_not_allowed\<close> raises.\<close>

definition http_method_not_allowed :: "request \<Rightarrow> exn + response" where
  "http_method_not_allowed request = Inl (MethodNotAllowed (request_method request))"

text \<open>
  \<^verbatim>\<open>APIView.handle_exception\<close>: an API exception becomes a response with the
  exception's status code and its detail; any other exception is raised again.
\<close>

definition handle_exception :: "exn \<Rightarrow> exn + response" where
  "handle_exception exc =
     (case exc of
        MethodNotAllowed m \<Rightarrow>
          Inr (Response
                 (Some (JObject [(''detail'', JString (''Method \"'' @ m @ ''\" not allowed.''))]))
                 (Some 405))
      | PyException e \<Rightarrow> Inl (PyException e))"

text \<open>
  \<^verbatim>\<open>APIView.dispatch\<close>: choose the handler, call it, and turn what it raises into a
  response where \<open>handle_exception\<close> can.
\<close>

definition dispatch :: "'s wrapped_api_view \<Rightarrow> 's view_func" where
  "dispatch v request s =
     (let (result, s') =
            (case get_handler v request of
               ViewFunc \<Rightarrow> func v request s
             | Options \<Rightarrow> (options v request, s)
             | HttpMethodNotAllowed \<Rightarrow> (http_method_not_allowed request, s))
      in (case result of
            Inr resp \<Rightarrow> (Inr resp, s')
          | Inl exc \<Rightarrow> (handle_exception exc, s')))"

text \<open>The name \<^verbatim>\<open>views.welcome_message\<close> after decoration.\<close>

definition views_welcome_message :: "json \<Rightarrow> 's wrapped_api_view" where
  "views_welcome_message md = api_view md [''GET''] welcome_message"

subsection \<open>urls.py\<close>

text \<open>
  \<^verbatim>\<open>path(route, view, name=...)\<close>: a pattern for one route. The routes of this
  program hold no path converters, so a pattern matches exactly the path that equals
  its route.
\<close>

record 'v url_pattern =
  route :: string
  callback :: 'v
  pattern_name :: string

definition path :: "string \<Rightarrow> 'v \<Rightarrow> string \<Rightarrow> 'v url_pattern" where
  "path r view n = \<lparr>route = r, callback = view, pattern_name = n\<rparr>"

text \<open>
  \<^verbatim>\<open>
  urlpatterns = [
      path("welcome-message/", views.welcome_message, name="welcome-message"),
  ]
  \<close>
\<close>

definition urlpatterns :: "json \<Rightarrow> 's wrapped_api_view url_pattern list" where
  "urlpatterns md =
     [path ''welcome-message/'' (views_welcome_message md) ''welcome-message'']"

text \<open>
  The resolver tries the patterns in order and returns the first that matches;
  \<open>None\<close> is Django's \<^verbatim>\<open>Resolver404\<close>.
\<close>

fun resolve :: "'v url_pattern list \<Rightarrow> string \<Rightarrow> 'v url_pattern option" where
  "resolve [] p = None"
| "resolve (u # us) p = (if route u = p then Some u else resolve us p)"

text \<open>The root resolver consumes the leading slash of the request path.\<close>

definition root_resolve :: "'v url_pattern list \<Rightarrow> string \<Rightarrow> 'v url_pattern option" where
  "root_resolve patterns p =
     (case p of
        [] \<Rightarrow> None
      | c # rest \<Rightarrow> if c = CHR ''/'' then resolve patterns rest else None)"

subsection \<open>Rendering\<close>

text \<open>
  \<^verbatim>\<open>json.dumps\<close> as the framework's JSON renderer calls it: compact separators,
  no ASCII-only escaping. Inside a string the quote, the backslash and the control
  characters are escaped; every other byte is written as it is.
\<close>

definition hex_digit :: "nat \<Rightarrow> char" where
  "hex_digit n = (if n < 10 then char_of (48 + n) else char_of (87 + n))"

definition escape_char :: "char \<Rightarrow> string" where
  "escape_char c =
     (let n = (of_char c :: nat) in
      if c = CHR 0x22 then [CHR 0x5C, CHR 0x22]
      else if c = CHR 0x5C then [CHR 0x5C, CHR 0x5C]
      else if n = 8 then [CHR 0x5C, CHR ''b'']
      else if n = 12 then [CHR 0x5C, CHR ''f'']
      else if n = 10 then [CHR 0x5C, CHR ''n'']
      else if n = 13 then [CHR 0x5C, CHR ''r'']
      else if n = 9 then [CHR 0x5C, CHR ''t'']
      else if n < 32 then [CHR 0x5C, CHR ''u'', CHR ''0'', CHR ''0'',
                           hex_digit (n div 16), hex_digit (n mod 16)]
      else [c])"

definition quote_string :: "string \<Rightarrow> string" where
  "quote_string s = [CHR 0x22] @ concat (map escape_char s) @ [CHR 0x22]"

fun join :: "string \<Rightarrow> string list \<Rightarrow> string" where
  "join sep [] = []"
| "join sep [x] = x"
| "join sep (x # y # ys) = x @ sep @ join sep (y # ys)"

fun json_dumps :: "json \<Rightarrow> string" where
  "json_dumps JNull = ''null''"
| "json_dumps (JBool b) = (if b then ''true'' else ''false'')"
| "json_dumps (JString s) = quote_string s"
| "json_dumps (JArray vs) = ''['' @ join '','' (map json_dumps vs) @ '']''"
| "json_dumps (JObject ms) =
     ''{'' @ join '','' (map (\<lambda>m. quote_string (fst m) @ '':'' @ json_dumps (snd m)) ms) @ ''}''"

text \<open>
  A renderer: its media type, its charset, and what it makes of the data.
  \<^verbatim>\<open>JSONRenderer\<close> has \<^verbatim>\<open>media_type = 'application/json'\<close>, \<^verbatim>\<open>charset = None\<close>,
  and renders \<^verbatim>\<open>None\<close> as the empty byte string.
\<close>

record renderer =
  media_type :: string
  charset :: "string option"
  render :: "json option \<Rightarrow> string"

definition JSONRenderer :: renderer where
  "JSONRenderer =
     \<lparr>media_type = ''application/json'',
      charset = None,
      render = (\<lambda>d. case d of None \<Rightarrow> [] | Some v \<Rightarrow> json_dumps v)\<rparr>"

text \<open>
  \<^verbatim>\<open>Response.rendered_content\<close>: the \<^verbatim>\<open>Content-Type\<close> header is the content type
  given to the constructor, or else the renderer's media type (with its charset when it
  has one); the header is dropped again when the rendered body is empty.
\<close>

definition render_response :: "renderer \<Rightarrow> response \<Rightarrow> response" where
  "render_response rn resp =
     (let ct = (case content_type resp of
                  Some c \<Rightarrow> c
                | None \<Rightarrow> (case charset rn of
                             Some cs \<Rightarrow> media_type rn @ ''; charset='' @ cs
                           | None \<Rightarrow> media_type rn));
          ret = render rn (data resp)
      in resp\<lparr>content_type_header := (if ret = [] then None else Some ct),
               content := ret\<rparr>)"

subsection \<open>Serving a request\<close>

text \<open>
  What the server sends back: a rendered framework response, or one of Django's own
  error responses, whose bodies are the framework's defaults.
\<close>

datatype http_response =
    Rendered response
  | HttpResponseNotFound
  | HttpResponseServerError

fun status :: "http_response \<Rightarrow> nat" where
  "status (Rendered resp) = status_code resp"
| "status HttpResponseNotFound = 404"
| "status HttpResponseServerError = 500"

text \<open>
  Django's request cycle: resolve the path; without a match answer 404; otherwise call
  the view that the pattern holds and render its response. An exception that leaves the
  view becomes a 500. \<open>md\<close> is the metadata the framework computes for the view,
  \<open>rn\<close> the renderer that the framework's content negotiation accepted for the
  request.
\<close>

definition get_response ::
  "json \<Rightarrow> renderer \<Rightarrow> request \<Rightarrow> 's \<Rightarrow> http_response \<times> 's" where
  "get_response md rn request s =
     (case root_resolve (urlpatterns md) (path_info request) of
        None \<Rightarrow> (HttpResponseNotFound, s)
      | Some m \<Rightarrow>
          (case dispatch (callback m) request s of
             (Inr resp, s') \<Rightarrow> (Rendered (render_response rn resp), s')
           | (Inl exc, s') \<Rightarrow> (HttpResponseServerError, s')))"

subsection \<open>Reading a body as JSON\<close>

text \<open>
  What a client obtains when it parses a response body as JSON: a reader for JSON texts
  built from objects, arrays, strings, \<^verbatim>\<open>true\<close>, \<^verbatim>\<open>false\<close> and \<^verbatim>\<open>null\<close>,
  with insignificant white space and the two-character escapes inside strings. It
  returns \<open>None\<close> on anything else, and on trailing input. The first argument of
  \<open>parse_value\<close> bounds the nesting depth; \<open>json_loads\<close> starts it above the length
  of the text.
\<close>

definition is_ws :: "char \<Rightarrow> bool" where
  "is_ws c = (c = CHR '' '' \<or> c = CHR 0x09 \<or> c = CHR 0x0A \<or> c = CHR 0x0D)"

fun skip_ws :: "string \<Rightarrow> string" where
  "skip_ws [] = []"
| "skip_ws (c # cs) = (if is_ws c then skip_ws cs else c # cs)"

definition unescape :: "char \<Rightarrow> char option" where
  "unescape e =
     (if e = CHR 0x22 then Some (CHR 0x22)
      else if e = CHR 0x5C then Some (CHR 0x5C)
      else if e = CHR ''/'' then Some (CHR ''/'')
      else if e = CHR ''b'' then Some (CHR 0x08)
      else if e = CHR ''f'' then Some (CHR 0x0C)
      else if e = CHR ''n'' then Some (CHR 0x0A)
      else if e = CHR ''r'' then Some (CHR 0x0D)
      else if e = CHR ''t'' then Some (CHR 0x09)
      else None)"

fun parse_string :: "string \<Rightarrow> string \<Rightarrow> (string \<times> string) option" where
  "parse_string acc [] = None"
| "parse_string acc [c] = (if c = CHR 0x22 then Some (rev acc, []) else None)"
| "parse_string acc (c # e # cs) =
     (if c = CHR 0x22 then Some (rev acc, e # cs)
      else if c = CHR 0x5C then
        (case unescape e of None \<Rightarrow> None | Some ch \<Rightarrow> parse_string (ch # acc) cs)
      else if (of_char c :: nat) < 32 then None
      else parse_string (c # acc) (e # cs))"

fun parse_value :: "nat \<Rightarrow> string \<Rightarrow> (json \<times> string) option"
  and parse_elements :: "nat \<Rightarrow> string \<Rightarrow> (json list \<times> string) option"
  and parse_members :: "nat \<Rightarrow> string \<Rightarrow> ((string \<times> json) list \<times> string) option"
where
  "parse_value 0 cs = None"
| "parse_value (Suc n) cs =
     (case skip_ws cs of
        [] \<Rightarrow> None
      | c # r \<Rightarrow>
          if c = CHR 0x22 then
            (case parse_string [] r of None \<Rightarrow> None | Some (s, r') \<Rightarrow> Some (JString s, r'))
          else if c = CHR ''{'' then
            (case skip_ws r of
               [] \<Rightarrow> None
             | d # r' \<Rightarrow>
                 if d = CHR ''}'' then Some (JObject [], r')
                 else (case parse_members n r of
                         None \<Rightarrow> None
                       | Some (ms, r'') \<Rightarrow> Some (JObject ms, r'')))
          else if c = CHR ''['' then
            (case skip_ws r of
               [] \<Rightarrow> None
             | d # r' \<Rightarrow>
                 if d = CHR '']'' then Some (JArray [], r')
                 else (case parse_elements n r of
                         None \<Rightarrow> None
                       | Some (vs, r'') \<Rightarrow> Some (JArray vs, r'')))
          else if take 4 (c # r) = ''null'' then Some (JNull, drop 3 r)
          else if take 4 (c # r) = ''true'' then Some (JBool True, drop 3 r)
          else if take 5 (c # r) = ''false'' then Some (JBool False, drop 4 r)
          else None)"
| "parse_elements 0 cs = None"
| "parse_elements (Suc n) cs =
     (case parse_value n cs of
        None \<Rightarrow> None
      | Some (v, r) \<Rightarrow>
          (case skip_ws r of
             [] \<Rightarrow> None
           | d # r' \<Rightarrow>
               if d = CHR '']'' then Some ([v], r')
               else if d = CHR '','' then
                 (case parse_elements n r' of
                    None \<Rightarrow> None
                  | Some (vs, r'') \<Rightarrow> Some (v # vs, r''))
               else None))"
| "parse_members 0 cs = None"
| "parse_members (Suc n) cs =
     (case skip_ws cs of
        [] \<Rightarrow> None
      | q # r \<Rightarrow>
          if q \<noteq> CHR 0x22 then None
          else (case parse_string [] r of
                  None \<Rightarrow> None
                | Some (k, r1) \<Rightarrow>
                    (case skip_ws r1 of
                       [] \<Rightarrow> None
                     | colon # r2 \<Rightarrow>
                         if colon \<noteq> CHR '':'' then None
                         else (case parse_value n r2 of
                                 None \<Rightarrow> None
                               | Some (v, r3) \<Rightarrow>
                                   (case skip_ws r3 of
                                      [] \<Rightarrow> None
                                    | d # r4 \<Rightarrow>
                                        if d = CHR ''}'' then Some ([(k, v)], r4)
                                        else if d = CHR '','' then
                                          (case parse_members n r4 of
                                             None \<Rightarrow> None
                                           | Some (ms, r5) \<Rightarrow> Some ((k, v) # ms, r5))
                                        else None)))))"


subsection \<open>Sample requests\<close>

text \<open>A request with the given method and path, and nothing else.\<close>

definition sample_request :: "string \<Rightarrow> string \<Rightarrow> request" where
  "sample_request m p =
     \<lparr>request_method = m, path_info = p, query_params = [], headers = [], body = []\<rparr>"

section \<open>Properties\<close>

subsection \<open>What the decorator and the URLconf compute\<close>

lemma http_method_names_api_view_GET:
  "http_method_names (api_view md [''GET''] f) = [''get'', ''options'']"
  by code_simp

lemma func_methods_api_view_GET: "func_methods (api_view md [''GET''] f) = [''get'']"
  by code_simp

lemma get_handler_api_view_GET:
  "get_handler (api_view md [''GET''] f) request =
     (if str_lower (request_method request) = ''get'' then ViewFunc
      else if str_lower (request_method request) = ''options'' then Options
      else HttpMethodNotAllowed)"
  by (auto simp add: get_handler_def Let_def http_method_names_api_view_GET
      func_methods_api_view_GET)

lemma dispatch_get:
  assumes "str_lower (request_method request) = ''get''"
  shows "dispatch (views_welcome_message md) request s = welcome_message request s"
  using assms
  by (simp add: dispatch_def views_welcome_message_def get_handler_api_view_GET
      welcome_message_def) (simp add: api_view_def welcome_message_def)

lemma dispatch_options:
  assumes "str_lower (request_method request) = ''options''"
  shows "dispatch (api_view md [''GET''] f) request s =
           (Inr (Response (Some md) (Some 200)), s)"
  using assms
  by (simp add: dispatch_def get_handler_api_view_GET options_def) (simp add: api_view_def)

lemma dispatch_other:
  assumes "str_lower (request_method request) \<noteq> ''get''"
    and "str_lower (request_method request) \<noteq> ''options''"
  shows "dispatch (api_view md [''GET''] f) request s =
     (Inr (Response
            (Some (JObject
               [(''detail'', JString (''Method \"'' @ request_method request @ ''\" not allowed.''))]))
            (Some 405)), s)"
  using assms
  by (simp add: dispatch_def get_handler_api_view_GET http_method_not_allowed_def
      handle_exception_def)

lemma root_resolve_urlpatterns:
  "root_resolve (urlpatterns md) p =
     (if p = ''/welcome-message/''
      then Some (path ''welcome-message/'' (views_welcome_message md) ''welcome-message'')
      else None)"
  by (cases p) (auto simp add: root_resolve_def urlpatterns_def path_def)

lemma status_code_render_response [simp]:
  "status_code (render_response rn resp) = status_code resp"
  by (simp add: render_response_def Let_def)

lemma data_render_response [simp]: "data (render_response rn resp) = data resp"
  by (simp add: render_response_def Let_def)



subsection \<open>The response to each kind of request\<close>

lemma get_response_get:
  assumes "path_info request = ''/welcome-message/''"
    and "str_lower (request_method request) = ''get''"
  shows "get_response md rn request s =
     (Rendered (render_response rn
        (Response (Some (JObject [(''message'', JString ''Hello World!'')])) None)), s)"
  using assms
  by (simp add: get_response_def root_resolve_urlpatterns path_def dispatch_get
      welcome_message_def)

lemma get_response_options:
  assumes "path_info request = ''/welcome-message/''"
    and "str_lower (request_method request) = ''options''"
  shows "get_response md rn request s =
     (Rendered (render_response rn (Response (Some md) (Some 200))), s)"
  using assms
  by (simp add: get_response_def root_resolve_urlpatterns path_def
      views_welcome_message_def dispatch_options)

lemma get_response_other:
  assumes "path_info request = ''/welcome-message/''"
    and "str_lower (request_method request) \<noteq> ''get''"
    and "str_lower (request_method request) \<noteq> ''options''"
  shows "get_response md rn request s =
     (Rendered (render_response rn
        (Response
           (Some (JObject
              [(''detail'', JString (''Method \"'' @ request_method request @ ''\" not allowed.''))]))
           (Some 405))), s)"
  using assms
  by (simp add: get_response_def root_resolve_urlpatterns path_def
      views_welcome_message_def dispatch_other)

lemma get_response_not_found:
  assumes "path_info request \<noteq> ''/welcome-message/''"
  shows "get_response md rn request s = (HttpResponseNotFound, s)"
  using assms by (simp add: get_response_def root_resolve_urlpatterns)

lemma status_code_Response_Some [simp]: "status_code (Response d (Some c)) = c"
  by (simp add: Response_def)

lemma data_Response [simp]: "data (Response d st) = d"
  by (simp add: Response_def)

lemma str_lower_samples:
  "str_lower ''GET'' = ''get''"
  "str_lower ''POST'' = ''post''"
  "str_lower ''DELETE'' = ''delete''"
  "str_lower ''OPTIONS'' = ''options''"
  by code_simp+

subsection \<open>The claims\<close>






text \<open>
  C3. A request whose path is not \<^verbatim>\<open>/welcome-message/\<close> matches no pattern of
  \<open>urlpatterns\<close>: no view is called, the state is as before, and the answer is
  Django's 404 response.
\<close>

theorem unknown_path_not_found:
  assumes "path_info request \<noteq> ''/welcome-message/''"
  shows "root_resolve (urlpatterns md) (path_info request) = None
     \<and> get_response md rn request s = (HttpResponseNotFound, s)
     \<and> status (fst (get_response md rn request s)) = 404"
  using assms by (simp add: get_response_not_found root_resolve_urlpatterns)

theorem unknown_path_not_found_witness:
  "path_info (sample_request ''GET'' ''/unknown-path/'') \<noteq> ''/welcome-message/''
   \<and> root_resolve (urlpatterns JNull) (path_info (sample_request ''GET'' ''/unknown-path/''))
       = (None :: nat wrapped_api_view url_pattern option)
   \<and> status (fst (get_response JNull JSONRenderer (sample_request ''GET'' ''/unknown-path/'') (0::nat)))
       = 404"
proof -
  have p: "path_info (sample_request ''GET'' ''/unknown-path/'') \<noteq> ''/welcome-message/''"
    by (simp add: sample_request_def)
  from unknown_path_not_found
      [OF p, where md = JNull and rn = JSONRenderer and s = "0::nat"] p show ?thesis
    by blast
qed



text \<open>
  C5. The method is checked by the dispatch that \<open>api_view\<close> puts in front of the
  function, not by the function: the decorated function is the chosen handler exactly
  for GET; for any other method the outcome of the dispatch does not depend on the
  decorated function at all, so it is not called; the function itself answers alike
  whatever the method of the request is; and the URL resolver looks at the path only.
\<close>

theorem method_checked_before_handler:
  "(get_handler (views_welcome_message md) request = ViewFunc)
      = (str_lower (request_method request) = ''get'')
   \<and> (str_lower (request_method request) \<noteq> ''get'' \<longrightarrow>
        dispatch (api_view md [''GET''] f) request s
          = dispatch (api_view md [''GET''] g) request s)
   \<and> welcome_message (request\<lparr>request_method := m\<rparr>) s = welcome_message request s
   \<and> root_resolve (urlpatterns md) (path_info (request\<lparr>request_method := m\<rparr>))
        = root_resolve (urlpatterns md) (path_info request)"
proof -
  have "(get_handler (views_welcome_message md) request = ViewFunc)
      = (str_lower (request_method request) = ''get'')"
    by (simp add: views_welcome_message_def get_handler_api_view_GET)
  moreover have "dispatch (api_view md [''GET''] f) request s
      = dispatch (api_view md [''GET''] g) request s"
    if "str_lower (request_method request) \<noteq> ''get''"
  proof (cases "str_lower (request_method request) = ''options''")
    case True
    then show ?thesis by (simp add: dispatch_options)
  next
    case False
    with that show ?thesis by (simp add: dispatch_other)
  qed
  moreover have "welcome_message (request\<lparr>request_method := m\<rparr>) s = welcome_message request s"
    by (simp add: welcome_message_def)
  ultimately show ?thesis by simp
qed

theorem method_checked_before_handler_witness:
  "str_lower (request_method (sample_request ''POST'' ''/welcome-message/'')) \<noteq> ''get''
   \<and> get_handler (views_welcome_message JNull) (sample_request ''POST'' ''/welcome-message/'')
        \<noteq> ViewFunc
   \<and> dispatch (api_view JNull [''GET''] welcome_message)
         (sample_request ''POST'' ''/welcome-message/'') (0::nat)
       = dispatch (api_view JNull [''GET''] (\<lambda>r s. (Inl (PyException ''RuntimeError''), Suc s)))
         (sample_request ''POST'' ''/welcome-message/'') (0::nat)"
proof -
  have m: "str_lower (request_method (sample_request ''POST'' ''/welcome-message/'')) \<noteq> ''get''"
    by (simp add: sample_request_def str_lower_samples)
  from method_checked_before_handler
    [where md = JNull and request = "sample_request ''POST'' ''/welcome-message/''"
      and f = welcome_message and s = "0::nat"
      and g = "\<lambda>r s. (Inl (PyException ''RuntimeError''), Suc s)"] m
  show ?thesis by blast
qed




text \<open>
  C8. \<open>welcome_message\<close> returns a response for every request and state; it never
  raises. Hence no request at all is answered with a server error.
\<close>

theorem welcome_message_cannot_fail:
  "(\<exists>resp. fst (welcome_message request s) = Inr resp)
   \<and> (\<exists>resp. fst (dispatch (views_welcome_message md) request s) = Inr resp)
   \<and> fst (get_response md rn request s) \<noteq> HttpResponseServerError"
proof -
  have h: "\<exists>resp. fst (welcome_message request s) = Inr resp"
    by (simp add: welcome_message_def)
  have d: "\<exists>resp. fst (dispatch (views_welcome_message md) request s) = Inr resp"
  proof (cases "str_lower (request_method request) = ''get''")
    case True
    then show ?thesis by (simp add: dispatch_get welcome_message_def)
  next
    case False
    then show ?thesis
      by (cases "str_lower (request_method request) = ''options''")
        (simp_all add: views_welcome_message_def dispatch_options dispatch_other)
  qed
  have "fst (get_response md rn request s) \<noteq> HttpResponseServerError"
  proof (cases "path_info request = ''/welcome-message/''")
    case path: True
    show ?thesis
    proof (cases "str_lower (request_method request) = ''get''")
      case True
      with path show ?thesis by (simp add: get_response_get)
    next
      case not_get: False
      show ?thesis
      proof (cases "str_lower (request_method request) = ''options''")
        case True
        with path show ?thesis by (simp add: get_response_options)
      next
        case False
        with path not_get show ?thesis by (simp add: get_response_other)
      qed
    qed
  next
    case False
    then show ?thesis by (simp add: get_response_not_found)
  qed
  with h d show ?thesis by simp
qed

text \<open>
  C9. \<open>welcome_message\<close> hands back the program state it was given, and its response
  is the same in every state: it writes nothing and reads nothing.
\<close>

theorem welcome_message_frame:
  "snd (welcome_message request s) = s
   \<and> fst (welcome_message request s) = fst (welcome_message request s')"
  by (simp add: welcome_message_def)



end
